theory Spec2Isabelle
  imports Complex_Main "HOL-Library.AList"
begin

text \<open>
  A model of the update and supervision engine of DockerManager: the \<open>Docker\<close> class
  (the status reader and the process supervisor, \<open>src/unnamed/part_001\<close>) and the
  \<open>Monitor\<close> class (the update policy engine with its promotion of builds,
  \<open>src/unnamed/part_000\<close>). What the program reads from outside is a \<open>world\<close>, what
  it changes is a \<open>state\<close>; each method is a function from a state to a state.
  Callbacks and promise chains are run in sequence, in the order one profile's
  callbacks run; the interleaving of several profiles or cycles is not modelled.
\<close>

section \<open>JavaScript strings\<close>

text \<open>
  A JavaScript string is modelled as a \<^typ>\<open>string\<close>, one \<^typ>\<open>char\<close> per code unit.
  The helpers below are the library functions the program calls, with the corner cases
  the language defines for them (an index that is not found is \<open>-1\<close>, \<open>substring\<close>
  clamps its arguments and swaps them when they are out of order).
\<close>

text \<open>\<open>s.split("\n")\<close>: never empty, the empty string gives one empty line.\<close>

fun split_nl :: "string \<Rightarrow> string list" where
  "split_nl [] = [[]]"
| "split_nl (c # cs) =
     (if c = CHR 0x0A then [] # split_nl cs
      else (case split_nl cs of [] \<Rightarrow> [[c]] | l # ls \<Rightarrow> (c # l) # ls))"

text \<open>\<open>s.startsWith(p)\<close>.\<close>

definition startsWith :: "string \<Rightarrow> string \<Rightarrow> bool" where
  "startsWith s p = (take (length p) s = p)"

text \<open>\<open>s.indexOf(p)\<close>: the first position at which \<open>p\<close> occurs, or \<open>-1\<close>.\<close>

fun indexOf_from :: "string \<Rightarrow> string \<Rightarrow> int \<Rightarrow> int" where
  "indexOf_from [] p i = (if p = [] then i else - 1)"
| "indexOf_from (c # cs) p i =
     (if startsWith (c # cs) p then i else indexOf_from cs p (i + 1))"

definition indexOf :: "string \<Rightarrow> string \<Rightarrow> int" where
  "indexOf s p = indexOf_from s p 0"

text \<open>
  \<open>s.substring(a, b)\<close>: both arguments are clamped to \<open>[0, s.length]\<close>, and the smaller
  one is the start.
\<close>

definition substring :: "string \<Rightarrow> int \<Rightarrow> int \<Rightarrow> string" where
  "substring s a b =
     (let n = int (length s);
          a' = max 0 (min a n);
          b' = max 0 (min b n);
          lo = min a' b';
          hi = max a' b'
      in take (nat (hi - lo)) (drop (nat lo) s))"

text \<open>\<open>s.trim()\<close>, on the white space of ASCII.\<close>

definition is_space :: "char \<Rightarrow> bool" where
  "is_space c = (c = CHR 0x20 \<or> c = CHR 0x09 \<or> c = CHR 0x0A \<or> c = CHR 0x0B
                 \<or> c = CHR 0x0C \<or> c = CHR 0x0D)"

definition trim :: "string \<Rightarrow> string" where
  "trim s = rev (dropWhile is_space (rev (dropWhile is_space s)))"

section \<open>The status reader (\<open>Docker.GetStatuses\<close>)\<close>

text \<open>
  What \<open>exec\<close> hands to its callback: the error of a non-zero exit (its message), the
  standard output and the standard error.
\<close>

record exec_result =
  exec_error :: "string option"
  exec_stdout :: string
  exec_stderr :: string

text \<open>
  The \<open>Docker\<close> object: the service names and the profile names read from the compose
  file by the constructor.
\<close>

record Docker =
  services :: "string list"
  profiles :: "string list"

text \<open>The column offsets read from the header line \<open>lines[0]\<close>.\<close>

record header =
  nameEnd :: int
  imageEnd :: int
  serviceStart :: int
  serviceEnd :: int
  statusStart :: int
  statusEnd :: int

definition read_header :: "string \<Rightarrow> header" where
  "read_header l =
     \<lparr> nameEnd = indexOf l ''IMAGE'',
       imageEnd = indexOf l ''COMMND'',
       serviceStart = indexOf l ''SERVICE'',
       serviceEnd = indexOf l ''CREATED'',
       statusStart = indexOf l ''STATUS'',
       statusEnd = indexOf l ''PORTS'' \<rparr>"

definition row_name :: "header \<Rightarrow> string \<Rightarrow> string" where
  "row_name h line = trim (substring line 0 (nameEnd h))"

definition row_image :: "header \<Rightarrow> string \<Rightarrow> string" where
  "row_image h line = trim (substring line (nameEnd h) (imageEnd h))"

definition row_service :: "header \<Rightarrow> string \<Rightarrow> string" where
  "row_service h line = trim (substring line (serviceStart h) (serviceEnd h))"

definition row_status :: "header \<Rightarrow> string \<Rightarrow> string" where
  "row_status h line = substring line (statusStart h) (statusEnd h)"

definition row_isUp :: "header \<Rightarrow> string \<Rightarrow> bool" where
  "row_isUp h line = startsWith (row_status h line) ''Up''"

text \<open>
  \<open>results\<close> is a plain object used as a record of booleans. The model keeps its own
  properties as a map and writes out what the object inherits from \<open>Object.prototype\<close>:
  \<open>k in results\<close> is true for an own key and for every inherited name; reading an
  inherited name that is no own key gives an object (a function, or the prototype
  itself), never a boolean; and an assignment to \<open>__proto__\<close> of a value that is no
  object is ignored, so it makes no own key.
\<close>

definition proto_keys :: "string list" where
  "proto_keys =
     [''constructor'', ''__defineGetter__'', ''__defineSetter__'', ''hasOwnProperty'',
      ''__lookupGetter__'', ''__lookupSetter__'', ''isPrototypeOf'', ''propertyIsEnumerable'',
      ''toString'', ''valueOf'', ''__proto__'', ''toLocaleString'']"

definition js_in :: "string \<Rightarrow> (string \<rightharpoonup> bool) \<Rightarrow> bool" where
  "js_in k obj = (obj k \<noteq> None \<or> k \<in> set proto_keys)"

definition js_set :: "string \<Rightarrow> bool \<Rightarrow> (string \<rightharpoonup> bool) \<Rightarrow> (string \<rightharpoonup> bool)" where
  "js_set k v obj = (if k = ''__proto__'' then obj else obj(k \<mapsto> v))"

datatype js_value = JBool bool | JObject

definition js_get :: "(string \<rightharpoonup> bool) \<Rightarrow> string \<Rightarrow> js_value option" where
  "js_get obj k =
     (case obj k of
        Some v \<Rightarrow> Some (JBool v)
      | None \<Rightarrow> if k \<in> set proto_keys then Some JObject else None)"

text \<open>
  The loop over \<open>lines[1..]\<close>: a row with an empty service is skipped by \<open>continue\<close>,
  any other row writes its up-state under three keys, the service, the name and the
  image, in this order.
\<close>

fun rows_loop :: "header \<Rightarrow> string list \<Rightarrow> (string \<rightharpoonup> bool) \<Rightarrow> (string \<rightharpoonup> bool)" where
  "rows_loop h [] results = results"
| "rows_loop h (line # rest) results =
     (if row_service h line = [] then rows_loop h rest results
      else rows_loop h rest
             (js_set (row_image h line) (row_isUp h line)
                (js_set (row_name h line) (row_isUp h line)
                   (js_set (row_service h line) (row_isUp h line) results))))"

text \<open>
  \<open>this.services.forEach\<close>: a service for which \<open>serviceKey in results\<close> is false is
  entered as down.
\<close>

fun fill_services :: "string list \<Rightarrow> (string \<rightharpoonup> bool) \<Rightarrow> (string \<rightharpoonup> bool)" where
  "fill_services [] results = results"
| "fill_services (serviceKey # rest) results =
     fill_services rest
       (if \<not> js_in serviceKey results then js_set serviceKey False results else results)"

definition parse_statuses :: "Docker \<Rightarrow> string \<Rightarrow> (string \<rightharpoonup> bool)" where
  "parse_statuses d out =
     (let lines = split_nl out;
          h = read_header (hd lines)
      in fill_services (services d) (rows_loop h (tl lines) Map.empty))"

section \<open>Errors, events, the file system\<close>

text \<open>The exceptions the program can meet, as values.\<close>

datatype js_error =
    TypeError
  | ENOENT string
  | EEXIST string
  | ENOTEMPTY string
  | EACCES string
  | NetworkError
  | ExtractError

text \<open>
  What the program does to the outside, in the order it does it: the commands it runs,
  the requests it sends, the timers it waits for, the lines it logs. Two info lines
  have constructors of their own (\<open>Restarting docker profile ...\<close> and
  \<open>Copying ... to ...\<close>); \<open>Unhandled\<close> is an exception thrown in a callback that
  nothing catches.
\<close>

datatype event =
    Exec string
  | Spawn string
  | HttpGet string
  | Sleep nat
  | LogInfo string
  | LogRestarting string
  | LogCopying string string
  | LogError string
  | LogException js_error
  | Unhandled js_error

text \<open>
  The file system is a listing of paths with what is there, in the order a directory
  listing gives them. A path is the string the program builds; an entry lies under a
  directory when its path is the directory's or continues it after a slash. Paths are
  compared as they are written: the model does not resolve \<open>.\<close>, \<open>..\<close>, or repeated
  or final slashes, so it stands for destinations, fingerprints and file names that are
  plain, non-empty names.
\<close>

datatype node = File (content: string) (mtime: nat) | Dir (mtime: nat)

type_synonym filesys = "(string \<times> node) list"

fun set_mtime :: "nat \<Rightarrow> node \<Rightarrow> node" where
  "set_mtime t (File c _) = File c t"
| "set_mtime t (Dir _) = Dir t"

fun is_Dir :: "node \<Rightarrow> bool" where
  "is_Dir (Dir _) = True"
| "is_Dir (File _ _) = False"

definition under :: "string \<Rightarrow> string \<Rightarrow> bool" where
  "under dir p = (p = dir \<or> startsWith p (dir @ ''/''))"

definition relocate :: "string \<Rightarrow> string \<Rightarrow> string \<Rightarrow> string" where
  "relocate src dst p = dst @ drop (length src) p"

definition existsSync :: "filesys \<Rightarrow> string \<Rightarrow> bool" where
  "existsSync fs p = (map_of fs p \<noteq> None)"

text \<open>
  The file-system calls, each with the reason the model knows for it to throw; any of
  them can also fail for a reason outside the model (permissions, a full disk), which
  the world decides through \<open>denied\<close>.
\<close>

datatype fsop =
    Mkdir string
  | Rm string
  | Rename string string
  | Cp string string
  | Utimes string
  | OpenWrite string
  | Unzip string string

section \<open>The world and the state\<close>

datatype 'a http_result = Rejected | Response nat 'a

text \<open>
  \<open>axios\<close> with its default \<open>validateStatus\<close>: the promise is fulfilled for a status
  from 200 to 299 and rejected for any other answer, as it is when no answer comes.
\<close>

definition axios :: "'a http_result \<Rightarrow> 'a http_result" where
  "axios r =
     (case r of
        Rejected \<Rightarrow> Rejected
      | Response status body \<Rightarrow>
          if 200 \<le> status \<and> status < 300 then Response status body else Rejected)"

record asset =
  asset_name :: string
  browser_download_url :: string

record release =
  prerelease :: bool
  assets :: "asset list"

text \<open>
  Everything the program reads from outside: the answer of the \<open>n\<close>-th
  \<open>docker compose ps -a\<close>, the answers of the three kinds of request, what an archive
  unpacks to (\<open>None\<close> when it is corrupt), which file-system calls fail for outside
  reasons, whether a name matches a pattern (the regular expression engine), and the
  \<open>AutostartMonitorProfiles\<close> of the environment.
\<close>

record world =
  ps_output :: "nat \<Rightarrow> exec_result"
  get_tree :: "string \<Rightarrow> string http_result"
  get_releases :: "string \<Rightarrow> release list http_result"
  get_archive :: "string \<Rightarrow> string http_result"
  unzip :: "string \<Rightarrow> filesys option"
  denied :: "fsop \<Rightarrow> bool"
  js_match :: "string \<Rightarrow> string \<Rightarrow> bool"
  AutostartMonitorProfiles :: "string list"

text \<open>
  The state the program changes: the \<open>cache\<close> of the \<open>Monitor\<close> object, the file
  system, the clock (milliseconds), the next fresh object reference, the number of
  status queries made so far, and the events so far.
\<close>

record state =
  cache :: "string \<rightharpoonup> string"
  files :: filesys
  clock :: nat
  heap_next :: nat
  ps_count :: nat
  trace :: "event list"

definition emit :: "event \<Rightarrow> state \<Rightarrow> state" where
  "emit e st = st\<lparr>trace := trace st @ [e]\<rparr>"

text \<open>
  \<open>path.dirname\<close> of a path as the program builds them: what stands before the last
  slash (the root for a path directly under it, the working directory for a path with
  no slash). The root and the working directory always exist.
\<close>

definition dirname :: "string \<Rightarrow> string" where
  "dirname p =
     (if CHR ''/'' \<notin> set p then ''.''
      else (let parent = rev (tl (dropWhile (\<lambda>c. c \<noteq> CHR ''/'') (rev p)))
            in if parent = [] then ''/'' else parent))"

definition parent_exists :: "filesys \<Rightarrow> string \<Rightarrow> bool" where
  "parent_exists fs p =
     (dirname p = ''.'' \<or> dirname p = ''/'' \<or> existsSync fs (dirname p))"

text \<open>\<open>fs.mkdirSync(p)\<close>, not recursive: the path must be new and its parent must exist.\<close>

definition mkdirSync :: "world \<Rightarrow> nat \<Rightarrow> string \<Rightarrow> filesys \<Rightarrow> js_error + filesys" where
  "mkdirSync w t p fs =
     (if denied w (Mkdir p) then Inl (EACCES p)
      else if existsSync fs p then Inl (EEXIST p)
      else if \<not> parent_exists fs p then Inl (ENOENT p)
      else Inr (fs @ [(p, Dir t)]))"

text \<open>\<open>fs.rmSync(p, {recursive: true, force: true})\<close>: a missing path is no error.\<close>

definition rmSync :: "world \<Rightarrow> string \<Rightarrow> filesys \<Rightarrow> js_error + filesys" where
  "rmSync w p fs =
     (if denied w (Rm p) then Inl (EACCES p)
      else Inr (filter (\<lambda>(q, n). \<not> under p q) fs))"

text \<open>
  \<open>fs.cpSync(src, dst, {recursive: true, force: true})\<close>: every entry under \<open>src\<close> is
  written to the same place under \<open>dst\<close>, over what is there; what else is under
  \<open>dst\<close> stays.
\<close>

definition cpSync :: "world \<Rightarrow> nat \<Rightarrow> string \<Rightarrow> string \<Rightarrow> filesys \<Rightarrow> js_error + filesys" where
  "cpSync w t src dst fs =
     (if denied w (Cp src dst) then Inl (EACCES src)
      else if \<not> existsSync fs src then Inl (ENOENT src)
      else Inr (fold (\<lambda>(q, n). AList.update (relocate src dst q) (set_mtime t n))
                  (filter (\<lambda>(q, n). under src q) fs) fs))"

text \<open>\<open>fs.renameSync(src, dst)\<close>: the tree moves; a target that is not empty is an error.\<close>

definition renameSync :: "world \<Rightarrow> string \<Rightarrow> string \<Rightarrow> filesys \<Rightarrow> js_error + filesys" where
  "renameSync w src dst fs =
     (if denied w (Rename src dst) then Inl (EACCES src)
      else if \<not> existsSync fs src then Inl (ENOENT src)
      else if filter (\<lambda>(q, n). under dst q \<and> q \<noteq> dst) fs \<noteq> [] then Inl (ENOTEMPTY dst)
      else Inr (map (\<lambda>(q, n). if under src q then (relocate src dst q, n) else (q, n))
                  (filter (\<lambda>(q, n). q \<noteq> dst) fs)))"

text \<open>\<open>fs.utimesSync(p, atime, mtime)\<close> sets the times of \<open>p\<close>; it reads nothing.\<close>

definition utimesSync :: "world \<Rightarrow> string \<Rightarrow> nat \<Rightarrow> filesys \<Rightarrow> js_error + filesys" where
  "utimesSync w p t fs =
     (if denied w (Utimes p) then Inl (EACCES p)
      else (case map_of fs p of
              None \<Rightarrow> Inl (ENOENT p)
            | Some n \<Rightarrow> Inr (AList.update p (set_mtime t n) fs)))"

text \<open>
  \<open>fs.readdirSync(dir, {withFileTypes: true}).filter(x => x.isDirectory()).map(x => x.name)\<close>:
  the names of the directories directly inside \<open>dir\<close>.
\<close>

definition readdir_dirs :: "filesys \<Rightarrow> string \<Rightarrow> string list" where
  "readdir_dirs fs dir =
     map (\<lambda>(q, n). drop (length dir + 1) q)
       (filter (\<lambda>(q, n). is_Dir n \<and> startsWith q (dir @ ''/'')
                         \<and> CHR ''/'' \<notin> set (drop (length dir + 1) q)) fs)"

section \<open>The process supervisor (\<open>Docker\<close>)\<close>

definition GetStatuses :: "world \<Rightarrow> Docker \<Rightarrow> state \<Rightarrow> (bool \<times> (string \<rightharpoonup> bool)) \<times> state" where
  "GetStatuses w d st =
     (let r = ps_output w (ps_count st);
          st1 = emit (Exec ''docker compose ps -a'') (st\<lparr>ps_count := ps_count st + 1\<rparr>)
      in case exec_error r of
           Some msg \<Rightarrow> ((False, Map.empty), emit (LogError msg) st1)
         | None \<Rightarrow>
             if exec_stderr r \<noteq> [] then ((False, Map.empty), emit (LogError (exec_stderr r)) st1)
             else ((True, parse_statuses d (exec_stdout r)), st1))"

definition StartProfile :: "Docker \<Rightarrow> string \<Rightarrow> state \<Rightarrow> bool \<times> state" where
  "StartProfile d profileName st =
     (let st1 = emit (LogInfo (''Starting profile '' @ profileName)) st
      in if profileName \<notin> set (profiles d)
         then (False, emit (LogError (''Invalid profile '' @ profileName)) st1)
         else (True, emit (Spawn (''docker compose --profile '' @ profileName @ '' up --build'')) st1))"

definition StopProfile :: "Docker \<Rightarrow> string \<Rightarrow> state \<Rightarrow> bool \<times> state" where
  "StopProfile d profileName st =
     (if profileName \<notin> set (profiles d)
      then (False, emit (LogError (''Invalid profile '' @ profileName)) st)
      else (True, emit (Spawn (''docker compose --profile '' @ profileName @ '' stop''))
                    (emit (LogInfo (''Stopping profile '' @ profileName)) st)))"

text \<open>
  \<open>GetContainerStatus\<close> calls back with \<open>(success, isUp)\<close>: \<open>(false, false)\<close> when the
  query failed or \<open>containerName in statuses\<close> is false, and otherwise
  \<open>statuses[containerName] ?? false\<close>, which for an inherited name is an object.
\<close>

definition GetContainerStatus ::
    "world \<Rightarrow> Docker \<Rightarrow> string \<Rightarrow> state \<Rightarrow> (bool \<times> js_value) \<times> state" where
  "GetContainerStatus w d containerName st =
     (case GetStatuses w d st of
        ((success, statuses), st1) \<Rightarrow>
          if \<not> success then ((False, JBool False), st1)
          else (case js_get statuses containerName of
                  None \<Rightarrow> ((False, JBool False),
                           emit (LogError (''Container: '' @ containerName @ '' is invalid'')) st1)
                | Some isUp \<Rightarrow> ((success, isUp), st1)))"

text \<open>\<open>isUp == desiredStatus\<close>: an object is equal to neither boolean.\<close>

fun loose_eq :: "js_value \<Rightarrow> bool \<Rightarrow> bool" where
  "loose_eq (JBool v) desiredStatus = (v = desiredStatus)"
| "loose_eq JObject desiredStatus = False"

text \<open>\<open>setTimeout(..., ms)\<close>: the continuation runs \<open>ms\<close> milliseconds later.\<close>

definition setTimeout :: "nat \<Rightarrow> state \<Rightarrow> state" where
  "setTimeout ms st = emit (Sleep ms) (st\<lparr>clock := clock st + ms\<rparr>)"

text \<open>
  \<open>WaitForStatus\<close>: \<open>attempts\<close> is a JavaScript number, a real number here, and the
  only way out without the desired status is \<open>attempts == 0\<close>. The call whose callback
  is never called has the value \<open>None\<close>. The callback of \<open>GetContainerStatus\<close>
  receives \<open>success\<close> and does not read it.
\<close>

partial_function (option) WaitForStatus ::
    "world \<Rightarrow> Docker \<Rightarrow> string \<Rightarrow> bool \<Rightarrow> real \<Rightarrow> state \<Rightarrow> (bool \<times> state) option" where
  "WaitForStatus w d containerName desiredStatus attempts st =
     (if attempts = 0 then Some (False, st)
      else if loose_eq (snd (fst (GetContainerStatus w d containerName st))) desiredStatus
      then Some (True, snd (GetContainerStatus w d containerName st))
      else WaitForStatus w d containerName desiredStatus (attempts - 1)
             (setTimeout 5000 (snd (GetContainerStatus w d containerName st))))"

declare WaitForStatus.simps [code]

section \<open>The update policy engine (\<open>Monitor\<close>)\<close>

record MonitorDetails =
  Profile :: string
  Type :: string
  Owner :: string
  Repo :: string
  AllowPrerelease :: bool
  AssetRegex :: string
  AutoRestart :: bool
  DestinationDirectory :: "string option"
  RemoveParentFolder :: bool
  CopyFiles :: "string list"
  MonitorContainers :: "string list"

text \<open>
  \<open>DestinationDirectory\<close> inside a template literal (an undefined value prints as
  \<open>undefined\<close>), and as a condition (undefined and the empty string are false).
\<close>

definition dest_str :: "MonitorDetails \<Rightarrow> string" where
  "dest_str m = (case DestinationDirectory m of None \<Rightarrow> ''undefined'' | Some s \<Rightarrow> s)"

definition has_destination :: "MonitorDetails \<Rightarrow> bool" where
  "has_destination m = (case DestinationDirectory m of None \<Rightarrow> False | Some s \<Rightarrow> s \<noteq> [])"

text \<open>\<open>isInit && AutostartMonitorProfiles.includes(monitor.Profile)\<close>.\<close>

definition autostarted :: "world \<Rightarrow> bool \<Rightarrow> MonitorDetails \<Rightarrow> bool" where
  "autostarted w isInit m = (isInit \<and> Profile m \<in> set (AutostartMonitorProfiles w))"

text \<open>
  A step that can throw returns the exception, if any, with the state reached when it
  was thrown; \<open>and_then\<close> runs the next statement when none was.
\<close>

type_synonym outcome = "js_error option \<times> state"

definition fs_step :: "(filesys \<Rightarrow> js_error + filesys) \<Rightarrow> state \<Rightarrow> outcome" where
  "fs_step f st = (case f (files st) of Inl e \<Rightarrow> (Some e, st) | Inr fs \<Rightarrow> (None, st\<lparr>files := fs\<rparr>))"

definition and_then :: "outcome \<Rightarrow> (state \<Rightarrow> outcome) \<Rightarrow> outcome" where
  "and_then r f = (case r of (None, st) \<Rightarrow> f st | (Some e, st) \<Rightarrow> (Some e, st))"

text \<open>The \<open>catch\<close> of a promise chain: \<open>Logger.error(e)\<close>.\<close>

definition catch_log :: "outcome \<Rightarrow> state" where
  "catch_log r = (case r of (None, st) \<Rightarrow> st | (Some e, st) \<Rightarrow> emit (LogException e) st)"

text \<open>An exception in a callback that has no \<open>catch\<close>.\<close>

definition uncaught :: "outcome \<Rightarrow> state" where
  "uncaught r = (case r of (None, st) \<Rightarrow> st | (Some e, st) \<Rightarrow> emit (Unhandled e) st)"

subsection \<open>\<open>syncMonitorFiles\<close>\<close>

text \<open>
  \<open>new Date()\<close> makes a fresh object holding the current time. \<open>!=\<close> between two
  objects compares the references, not the times.
\<close>

record Date =
  date_ref :: nat
  date_time :: nat

definition new_Date :: "state \<Rightarrow> Date \<times> state" where
  "new_Date st =
     (\<lparr>date_ref = heap_next st, date_time = clock st\<rparr>, st\<lparr>heap_next := heap_next st + 1\<rparr>)"

definition date_neq :: "Date \<Rightarrow> Date \<Rightarrow> bool" where
  "date_neq a b = (date_ref a \<noteq> date_ref b)"

text \<open>The body of the \<open>forEach\<close> of \<open>syncMonitorFiles\<close>, for one entry of \<open>CopyFiles\<close>.\<close>

definition sync_file :: "world \<Rightarrow> MonitorDetails \<Rightarrow> string \<Rightarrow> state \<Rightarrow> outcome" where
  "sync_file w m file st =
     (let source = dest_str m @ ''/'' @ file;
          destination = dest_str m @ ''/current/'' @ file;
          (sourceDate, st1) = new_Date st;
          (destinationDate, st2) = new_Date st1;
          (atime1, st3) = new_Date st2
      in and_then (fs_step (utimesSync w source (date_time sourceDate)) st3) (\<lambda>st4.
           let (atime2, st5) = new_Date st4
           in and_then (fs_step (utimesSync w destination (date_time destinationDate)) st5) (\<lambda>st6.
                if date_neq sourceDate destinationDate
                then fs_step (cpSync w (clock st6) source destination)
                       (emit (LogCopying source destination) st6)
                else (None, st6))))"

fun sync_each :: "world \<Rightarrow> MonitorDetails \<Rightarrow> string list \<Rightarrow> state \<Rightarrow> outcome" where
  "sync_each w m [] st = (None, st)"
| "sync_each w m (file # rest) st = and_then (sync_file w m file st) (sync_each w m rest)"

definition syncMonitorFiles :: "world \<Rightarrow> MonitorDetails \<Rightarrow> state \<Rightarrow> outcome" where
  "syncMonitorFiles w m st = sync_each w m (CopyFiles m) st"

subsection \<open>\<open>stopAndRestart\<close> and \<open>checkMonitorStatus\<close>\<close>

text \<open>
  The callbacks are run in sequence. An exception of \<open>syncMonitorFiles\<close> inside the
  callback of \<open>WaitForStatus\<close> has no handler; \<open>StartProfile\<close> is then not reached.
\<close>

definition stopAndRestart :: "world \<Rightarrow> Docker \<Rightarrow> MonitorDetails \<Rightarrow> state \<Rightarrow> state" where
  "stopAndRestart w d m st =
     (let st1 = emit (LogRestarting (Profile m)) st;
          st2 = snd (StopProfile d (Profile m) st1)
      in case WaitForStatus w d (Profile m) False 12 st2 of
           None \<Rightarrow> st2
         | Some (success, st3) \<Rightarrow>
             if success
             then uncaught (and_then (syncMonitorFiles w m st3)
                              (\<lambda>st4. (None, snd (StartProfile d (Profile m) st4))))
             else emit (LogError (''Unable to start docker profile '' @ Profile m)) st3)"

text \<open>
  \<open>x in upStatuses && upStatuses[x] === true\<close>: true only for an own key that holds
  \<open>true\<close> (what is inherited is an object, and strictly equal to no boolean).
\<close>

definition running :: "(string \<rightharpoonup> bool) \<Rightarrow> string \<Rightarrow> bool" where
  "running upStatuses x = (upStatuses x = Some True)"

fun join :: "string \<Rightarrow> string list \<Rightarrow> string" where
  "join sep [] = []"
| "join sep [x] = x"
| "join sep (x # y # ys) = x @ sep @ join sep (y # ys)"

definition checkMonitorStatus ::
    "world \<Rightarrow> Docker \<Rightarrow> MonitorDetails \<Rightarrow> (string \<rightharpoonup> bool) \<Rightarrow> state \<Rightarrow> state" where
  "checkMonitorStatus w d m upStatuses st =
     (if length (MonitorContainers m) = 0 then st
      else
        let numRunning = length (filter (running upStatuses) (MonitorContainers m));
            statuses = join '', ''
              (map (\<lambda>x. x @ '': '' @ (if running upStatuses x then ''RUNNING'' else ''NOT RUNNING''))
                 (MonitorContainers m));
            st1 = emit (LogInfo (Profile m @ '' status(es): '' @ statuses)) st
        in if numRunning \<noteq> length (MonitorContainers m)
           then stopAndRestart w d m
                  (emit (LogInfo (''One or more images for '' @ Profile m
                                   @ '' was not found. Restarting.'')) st1)
           else emit (LogInfo (Profile m @ '' up-to-date and running successfully'')) st1)"

subsection \<open>\<open>downloadAndExtract\<close>\<close>

text \<open>\<open>monitor.CopyFiles.forEach\<close> of the promotion: each entry is copied into \<open>current/\<close>.\<close>

fun copy_each :: "world \<Rightarrow> MonitorDetails \<Rightarrow> string list \<Rightarrow> state \<Rightarrow> outcome" where
  "copy_each w m [] st = (None, st)"
| "copy_each w m (file # rest) st =
     and_then
       (fs_step (cpSync w (clock st) (dest_str m @ ''/'' @ file) (dest_str m @ ''/current/'' @ file))
          (emit (LogCopying file (dest_str m @ ''/current/'' @ file)) st))
       (copy_each w m rest)"

text \<open>
  The file-system steps of the callback that runs once the archive is extracted: the
  move to \<open>builds/<cacheValue>\<close>, the removal of \<open>current\<close>, the copy of the build to
  \<open>current\<close>, the copies of \<open>CopyFiles\<close>.
\<close>

definition promote_steps :: "world \<Rightarrow> MonitorDetails \<Rightarrow> string \<Rightarrow> state \<Rightarrow> outcome" where
  "promote_steps w m cacheValue st =
     (let tempDirectory = dest_str m @ ''/temp'';
          tempZip = dest_str m @ ''/temp/files.zip'';
          buildDirectory = dest_str m @ ''/builds/'' @ cacheValue;
          current = dest_str m @ ''/current'';
          st1 = emit (LogInfo (tempZip @ '' extracted'')) st;
          copyPath =
            (if RemoveParentFolder m
             then tempDirectory @ ''/''
                    @ (case readdir_dirs (files st1) tempDirectory of
                         [] \<Rightarrow> ''undefined''
                       | subFolder # _ \<Rightarrow> subFolder)
             else tempDirectory);
          st2 = emit (LogInfo (''Renaming '' @ copyPath @ '' to '' @ buildDirectory)) st1
      in and_then (fs_step (renameSync w copyPath buildDirectory) st2) (\<lambda>st3.
         and_then
           (if existsSync (files st3) current
            then fs_step (rmSync w current)
                   (emit (LogInfo (''Removing '' @ current @ '' folder'')) st3)
            else (None, st3)) (\<lambda>st4.
         and_then
           (fs_step (cpSync w (clock st4) buildDirectory current)
              (emit (LogInfo (''Updating '' @ current @ '' to build '' @ cacheValue)) st4)) (\<lambda>st5.
         copy_each w m (CopyFiles m) st5))))"

text \<open>The whole callback: the steps, then the cache, then the restart.\<close>

definition promote :: "world \<Rightarrow> Docker \<Rightarrow> MonitorDetails \<Rightarrow> string \<Rightarrow> bool \<Rightarrow> state \<Rightarrow> outcome" where
  "promote w d m cacheValue isInit st =
     and_then (promote_steps w m cacheValue st) (\<lambda>st6.
       let st7 = st6\<lparr>cache := (cache st6)(Profile m \<mapsto> cacheValue)\<rparr>
       in (None,
           if AutoRestart m then stopAndRestart w d m st7
           else if autostarted w isInit m then stopAndRestart w d m st7
           else st7))"

text \<open>
  \<open>fs.rm(tempZip, () => {})\<close> is asynchronous: it removes the file, if it is still at
  that path, after the synchronous code of the callback; its error is dropped.
\<close>

definition rm_deferred :: "world \<Rightarrow> string \<Rightarrow> state \<Rightarrow> state" where
  "rm_deferred w p st =
     (if denied w (Rm p) then st else st\<lparr>files := filter (\<lambda>(q, n). q \<noteq> p) (files st)\<rparr>)"

text \<open>
  The stream written to \<open>files.zip\<close> and \<open>extract\<close>, once both are done: the archive
  is a file, and its entries are under the directory they are extracted to.
\<close>

definition unpack :: "MonitorDetails \<Rightarrow> string \<Rightarrow> filesys \<Rightarrow> state \<Rightarrow> state" where
  "unpack m body entries st =
     st\<lparr>files :=
          fold (\<lambda>(q, n). AList.update (dest_str m @ ''/temp'' @ ''/'' @ q) n) entries
            (AList.update (dest_str m @ ''/temp/files.zip'') (File body (clock st)) (files st))\<rparr>"

text \<open>
  The request for the archive and what follows it. A rejected request is logged by the
  \<open>catch\<close> of the chain. The stream to \<open>files.zip\<close> is opened asynchronously: when
  that fails the stream emits an \<open>error\<close> event that has no listener, \<open>finish\<close> never
  comes, and nothing follows (the \<open>try\<close> around the pipe catches only what building
  the pipe throws at once, which a response that is a stream does not do). A corrupt
  archive rejects the promise of \<open>extract\<close>, and an exception in its \<open>then\<close> callback
  rejects the promise that \<open>then\<close> returns; neither has a handler.
\<close>

definition fetch :: "world \<Rightarrow> Docker \<Rightarrow> MonitorDetails \<Rightarrow> string \<Rightarrow> string \<Rightarrow> bool \<Rightarrow> state \<Rightarrow> state" where
  "fetch w d m url cacheValue isInit st =
     (let tempDirectory = dest_str m @ ''/temp'';
          tempZip = dest_str m @ ''/temp/files.zip'';
          st1 = emit (HttpGet url) st
      in case axios (get_archive w url) of
           Rejected \<Rightarrow> emit (LogException NetworkError) st1
         | Response status body \<Rightarrow>
             if status \<noteq> 200
             then (if autostarted w isInit m then stopAndRestart w d m st1 else st1)
             else if denied w (OpenWrite tempZip)
             then emit (Unhandled (EACCES tempZip)) st1
             else
               (case (if denied w (Unzip tempZip tempDirectory) then None else unzip w body) of
                  None \<Rightarrow> emit (Unhandled ExtractError) (unpack m body [] st1)
                | Some entries \<Rightarrow>
                    rm_deferred w tempZip
                      (uncaught (promote w d m cacheValue isInit (unpack m body entries st1)))))"

text \<open>
  The synchronous part of \<open>downloadAndExtract\<close> can throw to its caller; the request
  and its callbacks cannot. Its two preparations are the \<open>builds\<close> directory, made when
  it is missing, and the \<open>temp\<close> directory, removed when it exists and made anew.
\<close>

definition ensure_builds :: "world \<Rightarrow> MonitorDetails \<Rightarrow> state \<Rightarrow> outcome" where
  "ensure_builds w m st =
     (if \<not> existsSync (files st) (dest_str m @ ''/builds'')
      then fs_step (mkdirSync w (clock st) (dest_str m @ ''/builds''))
             (emit (LogInfo (''Created builds folder for '' @ Profile m)) st)
      else (None, st))"

definition reset_temp :: "world \<Rightarrow> MonitorDetails \<Rightarrow> state \<Rightarrow> outcome" where
  "reset_temp w m st =
     (let tempDirectory = dest_str m @ ''/temp''
      in and_then
           (if existsSync (files st) tempDirectory
            then fs_step (rmSync w tempDirectory) st
            else (None, st))
           (\<lambda>st2. fs_step (mkdirSync w (clock st2) tempDirectory) st2))"

definition downloadAndExtract ::
    "world \<Rightarrow> Docker \<Rightarrow> MonitorDetails \<Rightarrow> string \<Rightarrow> string \<Rightarrow> bool \<Rightarrow> state \<Rightarrow> outcome" where
  "downloadAndExtract w d m url cacheValue isInit st =
     (let buildDirectory = dest_str m @ ''/builds/'' @ cacheValue;
          tempZip = dest_str m @ ''/temp/files.zip''
      in and_then (ensure_builds w m st) (\<lambda>st1.
         if existsSync (files st1) buildDirectory
         then
           (let st2 = (emit (LogInfo (''Build '' @ cacheValue @ '' already exists under ''
                                       @ Profile m @ '' builds folder'')) st1)
                        \<lparr>cache := (cache st1)(Profile m \<mapsto> cacheValue)\<rparr>
            in (None,
                if AutoRestart m \<or> autostarted w isInit m then stopAndRestart w d m st2
                else st2))
         else
           and_then (reset_temp w m st1) (\<lambda>st3.
             (None,
              fetch w d m url cacheValue isInit
                (emit (LogInfo (''Downloading '' @ url @ '' to '' @ tempZip)) st3)))))"

subsection \<open>\<open>runRepoMonitor\<close>, \<open>runReleaseMonitor\<close>, \<open>runMonitor\<close>\<close>

definition runRepoMonitor ::
    "world \<Rightarrow> Docker \<Rightarrow> MonitorDetails \<Rightarrow> bool \<Rightarrow> (string \<rightharpoonup> bool) \<Rightarrow> state \<Rightarrow> state" where
  "runRepoMonitor w d m isInit upStatuses st =
     (let st1 = emit (LogInfo (''Run repo monitor for '' @ Profile m)) st;
          repoUrl = ''https://api.github.com/repos/'' @ Owner m @ ''/'' @ Repo m
                      @ ''/git/trees/main'';
          st2 = emit (HttpGet repoUrl) st1
      in case axios (get_tree w repoUrl) of
           Rejected \<Rightarrow> emit (LogException NetworkError) st2
         | Response status sha \<Rightarrow>
             catch_log
               (if cache st2 (Profile m) = Some sha
                then and_then
                       (syncMonitorFiles w m
                          (emit (LogInfo (Profile m @ '' has up-to-date version of '' @ sha)) st2))
                       (\<lambda>st3. (None, checkMonitorStatus w d m upStatuses st3))
                else if has_destination m
                then downloadAndExtract w d m
                       (''https://github.com/'' @ Owner m @ ''/'' @ Repo m
                          @ ''/archive/refs/heads/main.zip'') sha isInit st2
                else if AutoRestart m then (None, stopAndRestart w d m st2)
                else if autostarted w isInit m then (None, stopAndRestart w d m st2)
                else (None, checkMonitorStatus w d m upStatuses st2)))"

text \<open>
  The releases that count and their assets that match, release by release, then joined
  by \<open>reduce\<close> with \<open>concat\<close> from the empty array.
\<close>

definition release_results :: "world \<Rightarrow> MonitorDetails \<Rightarrow> release list \<Rightarrow> asset list" where
  "release_results w m data =
     foldl (\<lambda>a b. a @ b) []
       (map (\<lambda>x. filter (\<lambda>y. js_match w (asset_name y) (AssetRegex m)) (assets x))
          (filter (\<lambda>x. \<not> prerelease x \<or> AllowPrerelease m) data))"

text \<open>An array is an object, and every object is true as a condition, the empty array too.\<close>

definition truthy_array :: "'a list \<Rightarrow> bool" where
  "truthy_array xs = True"

text \<open>
  \<open>name.replace(/\.[^/.]+$/, "")\<close>: the match is a dot followed, up to the end of the
  string, by one or more characters that are neither a dot nor a slash. Such a dot
  can only stand right before the longest final run of such characters.
\<close>

definition strip_ext :: "string \<Rightarrow> string" where
  "strip_ext s =
     (let ext = rev (takeWhile (\<lambda>c. c \<noteq> CHR ''.'' \<and> c \<noteq> CHR ''/'') (rev s));
          stem = take (length s - length ext) s
      in if ext \<noteq> [] \<and> stem \<noteq> [] \<and> last stem = CHR ''.'' then butlast stem else s)"

text \<open>\<open>results[0].name\<close> and \<open>results[0].browser_download_url\<close>: a \<open>TypeError\<close> when \<open>results\<close> is empty.\<close>

definition first_asset :: "asset list \<Rightarrow> js_error + (string \<times> string)" where
  "first_asset results =
     (case results of
        [] \<Rightarrow> Inl TypeError
      | a # _ \<Rightarrow> Inr (strip_ext (asset_name a), browser_download_url a))"

definition runReleaseMonitor ::
    "world \<Rightarrow> Docker \<Rightarrow> MonitorDetails \<Rightarrow> bool \<Rightarrow> (string \<rightharpoonup> bool) \<Rightarrow> state \<Rightarrow> state" where
  "runReleaseMonitor w d m isInit upStatuses st =
     (let st1 = emit (LogInfo (''Run release monitor for '' @ Profile m)) st;
          releaseUrl = ''https://api.github.com/repos/'' @ Owner m @ ''/'' @ Repo m @ ''/releases'';
          st2 = emit (HttpGet releaseUrl) st1
      in case axios (get_releases w releaseUrl) of
           Rejected \<Rightarrow> emit (LogException NetworkError) st2
         | Response status data \<Rightarrow>
             catch_log
               (if status \<noteq> 200
                then (None, if autostarted w isInit m then stopAndRestart w d m st2 else st2)
                else
                  let results = release_results w m data
                  in if \<not> truthy_array results
                     then (None, emit (LogInfo (''No release found for '' @ Profile m)) st2)
                     else
                       (case first_asset results of
                          Inl e \<Rightarrow> (Some e, st2)
                        | Inr (name, downloadUrl) \<Rightarrow>
                            if cache st2 (Profile m) = Some name
                            then and_then
                                   (syncMonitorFiles w m
                                      (emit (LogInfo (Profile m @ '' has up-to-date version of ''
                                                       @ name)) st2))
                                   (\<lambda>st3. (None, checkMonitorStatus w d m upStatuses st3))
                            else if has_destination m
                            then downloadAndExtract w d m downloadUrl name isInit st2
                            else if AutoRestart m \<or> autostarted w isInit m
                            then (None, stopAndRestart w d m st2)
                            else (None, checkMonitorStatus w d m upStatuses st2))))"

text \<open>
  One cycle: the status query, then every profile in turn with the snapshot it gave.
  The profiles' requests are evaluated one after the other, in list order.
\<close>

definition run_one ::
    "world \<Rightarrow> Docker \<Rightarrow> bool \<Rightarrow> (string \<rightharpoonup> bool) \<Rightarrow> MonitorDetails \<Rightarrow> state \<Rightarrow> state" where
  "run_one w d isInit upStatuses m st =
     (if Type m = ''repo'' then runRepoMonitor w d m isInit upStatuses st
      else if Type m = ''release'' then runReleaseMonitor w d m isInit upStatuses st
      else st)"

definition runMonitor :: "world \<Rightarrow> Docker \<Rightarrow> MonitorDetails list \<Rightarrow> bool \<Rightarrow> state \<Rightarrow> state" where
  "runMonitor w d monitors isInit st =
     (case GetStatuses w d st of
        ((success, upStatuses), st1) \<Rightarrow>
          if \<not> success then st1
          else fold (run_one w d isInit upStatuses) monitors st1)"

section \<open>Notions used in the statements\<close>




definition web_db :: Docker where
  "web_db = \<lparr>services = [''web'', ''db''], profiles = [''web'']\<rparr>"




text \<open>The status queries and the waits among the events.\<close>

fun is_poll_or_sleep :: "event \<Rightarrow> bool" where
  "is_poll_or_sleep (Exec c) = True"
| "is_poll_or_sleep (Sleep t) = True"
| "is_poll_or_sleep e = False"

definition timeline :: "state \<Rightarrow> event list" where
  "timeline st = filter is_poll_or_sleep (trace st)"

text \<open>The requests sent and the restarts begun among the events.\<close>

fun is_request_or_restart :: "event \<Rightarrow> bool" where
  "is_request_or_restart (HttpGet u) = True"
| "is_request_or_restart (LogRestarting p) = True"
| "is_request_or_restart e = False"

definition requests_and_restarts :: "state \<Rightarrow> event list" where
  "requests_and_restarts st = filter is_request_or_restart (trace st)"

text \<open>Two states with the same cache, the same requests sent and the same restarts begun.\<close>

definition same_record :: "state \<Rightarrow> state \<Rightarrow> bool" where
  "same_record st s = (cache s = cache st \<and> requests_and_restarts s = requests_and_restarts st)"



text \<open>The two addresses a profile is watched at.\<close>

definition repoUrl :: "MonitorDetails \<Rightarrow> string" where
  "repoUrl m = ''https://api.github.com/repos/'' @ Owner m @ ''/'' @ Repo m @ ''/git/trees/main''"

definition releaseUrl :: "MonitorDetails \<Rightarrow> string" where
  "releaseUrl m = ''https://api.github.com/repos/'' @ Owner m @ ''/'' @ Repo m @ ''/releases''"

subsection \<open>Concrete inputs\<close>

text \<open>
  A world in which the status listing is empty, every request is rejected, no archive
  unpacks, no file-system call is denied and every name matches every pattern; the
  state of a \<open>Monitor\<close> just constructed, on an empty file system.
\<close>

definition quiet_world :: world where
  "quiet_world =
     \<lparr> ps_output = (\<lambda>n. \<lparr>exec_error = None, exec_stdout = [], exec_stderr = []\<rparr>),
       get_tree = (\<lambda>u. Rejected),
       get_releases = (\<lambda>u. Rejected),
       get_archive = (\<lambda>u. Rejected),
       unzip = (\<lambda>b. None),
       denied = (\<lambda>c. False),
       js_match = (\<lambda>n p. True),
       AutostartMonitorProfiles = [] \<rparr>"

definition init_state :: state where
  "init_state =
     \<lparr> cache = Map.empty, files = [], clock = 0, heap_next = 0, ps_count = 0, trace = [] \<rparr>"

text \<open>A world whose status query fails: the command writes to its standard error.\<close>

definition daemon_down :: world where
  "daemon_down =
     quiet_world\<lparr>ps_output :=
       (\<lambda>n. \<lparr>exec_error = None, exec_stdout = [],
              exec_stderr = ''Cannot connect to the Docker daemon''\<rparr>)\<rparr>"


text \<open>A profile with a destination, one auxiliary file and one monitored container.\<close>

definition app_profile :: MonitorDetails where
  "app_profile =
     \<lparr> Profile = ''app'', Type = ''repo'', Owner = ''acme'', Repo = ''app'',
       AllowPrerelease = False, AssetRegex = [CHR 0x5C] @ ''.zip$'', AutoRestart = False,
       DestinationDirectory = Some ''/srv/app'', RemoveParentFolder = False,
       CopyFiles = [''config.yml''], MonitorContainers = [''app''] \<rparr>"

text \<open>
  A file system on which the auxiliary file and its active copy have the same content
  and the same modification time.
\<close>

definition synced_state :: state where
  "synced_state =
     init_state\<lparr>clock := 500,
       files := [(''/srv/app'', Dir 10),
                 (''/srv/app/config.yml'', File ''a=1'' 100),
                 (''/srv/app/current'', Dir 10),
                 (''/srv/app/current/config.yml'', File ''a=1'' 100)]\<rparr>"

text \<open>The feed of the spec's example, and a world that reads the pattern as it is meant.\<close>

definition example_feed :: "release list" where
  "example_feed =
     [\<lparr>prerelease = True,
       assets = [\<lparr>asset_name = ''a.zip'', browser_download_url = ''https://dl/a.zip''\<rparr>]\<rparr>,
      \<lparr>prerelease = False,
       assets = [\<lparr>asset_name = ''b.zip'', browser_download_url = ''https://dl/b.zip''\<rparr>,
                 \<lparr>asset_name = ''c.txt'', browser_download_url = ''https://dl/c.txt''\<rparr>]\<rparr>]"

definition zip_world :: world where
  "zip_world =
     quiet_world\<lparr>js_match :=
       (\<lambda>n p. p = [CHR 0x5C] @ ''.zip$'' \<and> drop (length n - 4) n = ''.zip'')\<rparr>"

text \<open>A world whose release feed answers with no release at all.\<close>

definition empty_feed :: world where
  "empty_feed = quiet_world\<lparr>get_releases := (\<lambda>u. Response 200 [])\<rparr>"




text \<open>
  A world whose branch is at \<open>abc\<close>, and a state that has \<open>abc\<close> in the cache while the
  active copy of the auxiliary file is missing.
\<close>

definition branch_world :: world where
  "branch_world = quiet_world\<lparr>get_tree := (\<lambda>u. Response 200 ''abc'')\<rparr>"

definition cached_state :: state where
  "cached_state =
     init_state\<lparr>cache := [''app'' \<mapsto> ''abc''],
       files := [(''/srv/app'', Dir 10),
                 (''/srv/app/config.yml'', File ''a=1'' 100),
                 (''/srv/app/current'', Dir 10)]\<rparr>"

text \<open>A world in which the archive of the branch downloads and unpacks.\<close>

definition archive_world :: world where
  "archive_world =
     quiet_world\<lparr>get_tree := (\<lambda>u. Response 200 ''abc''),
                 get_archive := (\<lambda>u. Response 200 ''PK''),
                 unzip := (\<lambda>b. Some [(''app.js'', File ''new'' 0)])\<rparr>"

text \<open>A file system with the destination and the auxiliary file, and no build yet.\<close>

definition fresh_state :: state where
  "fresh_state =
     init_state\<lparr>clock := 100,
       files := [(''/srv/app'', Dir 10),
                 (''/srv/app/config.yml'', File ''a=1'' 100)]\<rparr>"

text \<open>
  States that have the current fingerprint in the cache, of the branch and of the
  release feed, with the auxiliary file and its active copy in place; a world whose
  feed is the example's; the profile as a release profile.
\<close>

definition cached_synced_state :: state where
  "cached_synced_state = synced_state\<lparr>cache := [''app'' \<mapsto> ''abc'']\<rparr>"

definition cached_release_state :: state where
  "cached_release_state = synced_state\<lparr>cache := [''app'' \<mapsto> ''b'']\<rparr>"

definition release_world :: world where
  "release_world = zip_world\<lparr>get_releases := (\<lambda>u. Response 200 example_feed)\<rparr>"

definition app_release :: MonitorDetails where
  "app_release = app_profile\<lparr>Type := ''release''\<rparr>"

text \<open>The same world, but the copy of the build \<open>abc\<close> to \<open>current\<close> is denied.\<close>

definition copy_denied :: world where
  "copy_denied =
     archive_world\<lparr>denied := (\<lambda>c. c = Cp ''/srv/app/builds/abc'' ''/srv/app/current'')\<rparr>"



section \<open>The status reader\<close>








section \<open>Frame lemmas of the supervisor\<close>

lemma emit_fields:
  "ps_count (emit e st) = ps_count st"
  "clock (emit e st) = clock st"
  "cache (emit e st) = cache st"
  "files (emit e st) = files st"
  "heap_next (emit e st) = heap_next st"
  "trace (emit e st) = trace st @ [e]"
  by (simp_all add: emit_def)

lemma timeline_emit:
  "timeline (emit e st) = timeline st @ (if is_poll_or_sleep e then [e] else [])"
  by (simp add: timeline_def emit_def)

lemma requests_emit:
  "requests_and_restarts (emit e st) =
     requests_and_restarts st @ (if is_request_or_restart e then [e] else [])"
  by (simp add: requests_and_restarts_def emit_def)

lemma GetStatuses_fields:
  "ps_count (snd (GetStatuses w d st)) = Suc (ps_count st)"
  "clock (snd (GetStatuses w d st)) = clock st"
  "cache (snd (GetStatuses w d st)) = cache st"
  "files (snd (GetStatuses w d st)) = files st"
  "heap_next (snd (GetStatuses w d st)) = heap_next st"
  "timeline (snd (GetStatuses w d st)) = timeline st @ [Exec ''docker compose ps -a'']"
  "requests_and_restarts (snd (GetStatuses w d st)) = requests_and_restarts st"
  by (simp_all add: GetStatuses_def Let_def timeline_emit requests_emit emit_fields
      timeline_def requests_and_restarts_def split: option.splits)

lemma GetContainerStatus_fields:
  "ps_count (snd (GetContainerStatus w d c st)) = Suc (ps_count st)"
  "clock (snd (GetContainerStatus w d c st)) = clock st"
  "cache (snd (GetContainerStatus w d c st)) = cache st"
  "files (snd (GetContainerStatus w d c st)) = files st"
  "heap_next (snd (GetContainerStatus w d c st)) = heap_next st"
  "timeline (snd (GetContainerStatus w d c st)) = timeline st @ [Exec ''docker compose ps -a'']"
  "requests_and_restarts (snd (GetContainerStatus w d c st)) = requests_and_restarts st"
  using GetStatuses_fields [of w d st]
  by (auto simp add: GetContainerStatus_def timeline_emit requests_emit emit_fields
      split: prod.splits option.splits)


lemma setTimeout_fields:
  "ps_count (setTimeout t st) = ps_count st"
  "clock (setTimeout t st) = clock st + t"
  "cache (setTimeout t st) = cache st"
  "files (setTimeout t st) = files st"
  "heap_next (setTimeout t st) = heap_next st"
  "timeline (setTimeout t st) = timeline st @ [Sleep t]"
  "requests_and_restarts (setTimeout t st) = requests_and_restarts st"
  by (simp_all add: setTimeout_def emit_def timeline_def requests_and_restarts_def)





lemma WaitForStatus_frame:
  assumes "WaitForStatus w d c b a st = Some y"
  shows "cache (snd y) = cache st \<and> files (snd y) = files st \<and>
         requests_and_restarts (snd y) = requests_and_restarts st"
proof (rule WaitForStatus.raw_induct
    [where P = "\<lambda>w d c b a st y. cache (snd y) = cache st \<and> files (snd y) = files st \<and>
                  requests_and_restarts (snd y) = requests_and_restarts st", OF _ assms])
  fix f w d c b a st and y :: "bool \<times> state"
  assume IH: "\<And>w d c b a st y. f w d c b a st = Some y \<Longrightarrow>
                cache (snd y) = cache st \<and> files (snd y) = files st \<and>
                requests_and_restarts (snd y) = requests_and_restarts st"
    and body: "(if a = 0 then Some (False, st)
                else if loose_eq (snd (fst (GetContainerStatus w d c st))) b
                then Some (True, snd (GetContainerStatus w d c st))
                else f w d c b (a - 1) (setTimeout 5000 (snd (GetContainerStatus w d c st)))) = Some y"
  show "cache (snd y) = cache st \<and> files (snd y) = files st \<and>
        requests_and_restarts (snd y) = requests_and_restarts st"
  proof (cases "a = 0")
    case True
    with body show ?thesis by auto
  next
    case False
    show ?thesis
    proof (cases "loose_eq (snd (fst (GetContainerStatus w d c st))) b")
      case True
      with False body show ?thesis
        by (auto simp add: GetContainerStatus_fields)
    next
      case miss: False
      with False body have
        "f w d c b (a - 1) (setTimeout 5000 (snd (GetContainerStatus w d c st))) = Some y"
        by simp
      from IH [OF this] show ?thesis
        by (simp add: GetContainerStatus_fields setTimeout_fields)
    qed
  qed
qed


section \<open>\<open>WaitForStatus\<close>\<close>




section \<open>Frame lemmas of the policy engine\<close>

lemma axios_Response: "axios r = Response status body \<Longrightarrow> r = Response status body"
  by (cases r) (auto simp add: axios_def split: if_splits)

lemma axios_200: "axios (Response 200 body) = Response 200 body"
  by (simp add: axios_def)

lemma fs_step_frame:
  "cache (snd (fs_step f st)) = cache st"
  "trace (snd (fs_step f st)) = trace st"
  "requests_and_restarts (snd (fs_step f st)) = requests_and_restarts st"
  by (simp_all add: fs_step_def requests_and_restarts_def split: sum.splits)

lemma new_Date_frame:
  "cache (snd (new_Date st)) = cache st"
  "trace (snd (new_Date st)) = trace st"
  "files (snd (new_Date st)) = files st"
  "requests_and_restarts (snd (new_Date st)) = requests_and_restarts st"
  by (simp_all add: new_Date_def requests_and_restarts_def)

lemma and_then_keeps:
  assumes "same_record st (snd r)" and "\<And>s. same_record st s \<Longrightarrow> same_record st (snd (f s))"
  shows "same_record st (snd (and_then r f))"
  using assms by (cases r) (auto simp: and_then_def split: option.splits)

lemma fs_step_same: "same_record st s \<Longrightarrow> same_record st (snd (fs_step f s))"
  by (simp add: same_record_def fs_step_frame)

lemma emit_same:
  "same_record st s \<Longrightarrow> \<not> is_request_or_restart e \<Longrightarrow> same_record st (emit e s)"
  by (simp add: same_record_def requests_emit emit_fields)

lemma heap_same: "same_record st s \<Longrightarrow> same_record st (s\<lparr>heap_next := n\<rparr>)"
  by (simp add: same_record_def requests_and_restarts_def)

lemma same_record_refl: "same_record st st"
  by (simp add: same_record_def)

lemma sync_file_frame: "same_record st (snd (sync_file w m file st))"
  unfolding sync_file_def Let_def new_Date_def split_def fst_conv snd_conv
  apply (rule and_then_keeps)
   apply (intro fs_step_same heap_same same_record_refl)
  apply (rule and_then_keeps)
   apply (intro fs_step_same heap_same, assumption)
  apply (simp add: fs_step_same emit_same)
  done

lemma sync_each_frame: "same_record st (snd (sync_each w m fs st))"
proof (induction fs arbitrary: st)
  case Nil
  then show ?case by (simp add: same_record_def)
next
  case (Cons f fs)
  show ?case
    unfolding sync_each.simps
  proof (rule and_then_keeps)
    show "same_record st (snd (sync_file w m f st))" by (rule sync_file_frame)
  next
    fix s assume "same_record st s"
    with Cons.IH [of s] show "same_record st (snd (sync_each w m fs s))"
      by (simp add: same_record_def)
  qed
qed

lemma syncMonitorFiles_frame: "same_record st (snd (syncMonitorFiles w m st))"
  by (simp add: syncMonitorFiles_def sync_each_frame)

lemma StartProfile_frame: "same_record st (snd (StartProfile d p st))"
  by (simp add: StartProfile_def Let_def same_record_def requests_emit emit_fields)

lemma StopProfile_frame: "same_record st (snd (StopProfile d p st))"
  by (simp add: StopProfile_def Let_def same_record_def requests_emit emit_fields)

lemma stopAndRestart_frame:
  "cache (stopAndRestart w d m st) = cache st \<and>
   requests_and_restarts (stopAndRestart w d m st)
     = requests_and_restarts st @ [LogRestarting (Profile m)]"
proof -
  let ?st1 = "emit (LogRestarting (Profile m)) st"
  let ?st2 = "snd (StopProfile d (Profile m) ?st1)"
  have s2: "same_record ?st1 ?st2"
    by (rule StopProfile_frame)
  have c: "same_record ?st1 (stopAndRestart w d m st)"
  proof (cases "WaitForStatus w d (Profile m) False 12 ?st2")
    case None
    with s2 show ?thesis
      by (simp add: stopAndRestart_def Let_def)
  next
    case (Some y)
    obtain success st3 where y: "y = (success, st3)"
      by (cases y)
    have a: "same_record ?st1 st3"
      using WaitForStatus_frame [OF Some] s2 y by (simp add: same_record_def)
    have b: "same_record ?st1
       (snd (and_then (syncMonitorFiles w m st3) (\<lambda>st4. (None, snd (StartProfile d (Profile m) st4)))))"
    proof (rule and_then_keeps)
      show "same_record ?st1 (snd (syncMonitorFiles w m st3))"
        using a syncMonitorFiles_frame [of st3 w m] by (simp add: same_record_def)
    next
      fix s assume "same_record ?st1 s"
      then show "same_record ?st1 (snd (None, snd (StartProfile d (Profile m) s)))"
        using StartProfile_frame [of s d "Profile m"] by (simp add: same_record_def)
    qed
    have u: "\<And>r. same_record ?st1 (snd r) \<Longrightarrow> same_record ?st1 (uncaught r)"
      by (auto simp add: uncaught_def same_record_def requests_emit emit_fields
          split: prod.splits option.splits)
    show ?thesis
      using a b u Some y
      by (simp add: stopAndRestart_def Let_def same_record_def requests_emit emit_fields)
  qed
  then show ?thesis
    by (simp add: same_record_def requests_emit emit_fields)
qed

lemma filter_length_all: "(length (filter P xs) \<noteq> length xs) = (\<not> list_all P xs)"
proof (cases "list_all P xs")
  case True
  then have "filter P xs = xs" by (simp add: list_all_iff)
  with True show ?thesis by simp
next
  case False
  then obtain x where "x \<in> set xs" "\<not> P x" by (auto simp: list_all_iff)
  then have "length (filter P xs) < length xs" by (rule length_filter_less)
  with False show ?thesis by simp
qed


section \<open>A failed status query inside \<open>WaitForStatus\<close>\<close>

text \<open>
  C6, at a failing input. The status query fails (the command writes to its standard
  error, and \<open>GetStatuses\<close> reports no success); \<open>WaitForStatus\<close>, waiting for the
  profile to be down, reports success on that first query.
\<close>

theorem WaitForStatus_failed_query_is_down:
  "map_option fst (WaitForStatus daemon_down web_db ''web'' False 12 init_state) = Some True \<and>
   map_option (ps_count \<circ> snd) (WaitForStatus daemon_down web_db ''web'' False 12 init_state) = Some 1 \<and>
   \<not> fst (fst (GetStatuses daemon_down web_db init_state))"
  by code_simp

section \<open>Auxiliary-file resync\<close>

text \<open>
  C8, at a failing input. The auxiliary file and its active copy have the same content
  and the same modification time; the resync copies the file all the same.
\<close>

theorem syncMonitorFiles_copies_unchanged:
  "map_of (files synced_state) ''/srv/app/config.yml'' = Some (File ''a=1'' 100) \<and>
   map_of (files synced_state) ''/srv/app/current/config.yml'' = Some (File ''a=1'' 100) \<and>
   fst (syncMonitorFiles quiet_world app_profile synced_state) = None \<and>
   trace (snd (syncMonitorFiles quiet_world app_profile synced_state))
     = [LogCopying ''/srv/app/config.yml'' ''/srv/app/current/config.yml'']"
  by code_simp

section \<open>Version resolution of a release feed\<close>





section \<open>A cycle whose status query fails\<close>

text \<open>
  C10. When the status query at the start of a cycle fails (an error of the command,
  or output on its standard error), the cycle ends there: the state is the one before
  but for the query made and its error logged; the cache and the file system are
  untouched, no request is sent, no profile is stopped or started.
\<close>

theorem runMonitor_failed_query:
  assumes "exec_error (ps_output w (ps_count st)) \<noteq> None
           \<or> exec_stderr (ps_output w (ps_count st)) \<noteq> []"
  shows "runMonitor w d monitors isInit st =
           st\<lparr>ps_count := ps_count st + 1,
              trace := trace st @ [Exec ''docker compose ps -a'',
                        LogError (case exec_error (ps_output w (ps_count st)) of
                                    Some msg \<Rightarrow> msg
                                  | None \<Rightarrow> exec_stderr (ps_output w (ps_count st)))]\<rparr>"
  using assms
  by (auto simp add: runMonitor_def GetStatuses_def Let_def emit_def split: option.splits)

theorem runMonitor_failed_query_witness:
  "cache (runMonitor daemon_down web_db [app_profile] True init_state) ''app'' = None \<and>
   files (runMonitor daemon_down web_db [app_profile] True init_state) = [] \<and>
   trace (runMonitor daemon_down web_db [app_profile] True init_state)
     = [Exec ''docker compose ps -a'', LogError ''Cannot connect to the Docker daemon'']"
proof -
  have h: "exec_error (ps_output daemon_down (ps_count init_state)) \<noteq> None
           \<or> exec_stderr (ps_output daemon_down (ps_count init_state)) \<noteq> []"
    by (simp add: daemon_down_def quiet_world_def)
  show ?thesis
    using runMonitor_failed_query [OF h, of web_db "[app_profile]" True]
    by (simp add: daemon_down_def quiet_world_def init_state_def)
qed

section \<open>A release feed with no matching asset\<close>

text \<open>
  C7. When the feed answers and no asset is left after the two filters (the empty feed
  included), the evaluation of the profile ends with the exception of reading the
  first asset, logged by the \<open>catch\<close> of the request: the state is the one before but
  for three events, the line that the monitor runs, the request for the feed and the
  logged exception. No archive is requested, nothing is stopped or started, the cache
  and the file system are untouched.
\<close>

theorem no_asset_is_skipped:
  assumes "get_releases w (releaseUrl m) = Response 200 data"
      and "release_results w m data = []"
  shows "runReleaseMonitor w d m isInit upStatuses st =
           st\<lparr>trace := trace st @ [LogInfo (''Run release monitor for '' @ Profile m),
                                    HttpGet (releaseUrl m), LogException TypeError]\<rparr>"
  using assms
  by (simp add: runReleaseMonitor_def releaseUrl_def Let_def catch_log_def truthy_array_def
      first_asset_def emit_def axios_200)

theorem no_asset_is_skipped_witness:
  "runReleaseMonitor empty_feed web_db (app_profile\<lparr>Type := ''release''\<rparr>) True Map.empty init_state =
     init_state\<lparr>trace := [LogInfo ''Run release monitor for app'',
                            HttpGet ''https://api.github.com/repos/acme/app/releases'',
                            LogException TypeError]\<rparr>"
proof -
  have a: "get_releases empty_feed (releaseUrl (app_profile\<lparr>Type := ''release''\<rparr>)) = Response 200 []"
    by (simp add: empty_feed_def quiet_world_def)
  have b: "release_results empty_feed (app_profile\<lparr>Type := ''release''\<rparr>) [] = []"
    by (simp add: release_results_def)
  show ?thesis
    using no_asset_is_skipped [OF a b, of web_db True Map.empty init_state]
    by (simp add: app_profile_def releaseUrl_def init_state_def)
qed


section \<open>Frame lemmas of the promotion\<close>

lemma checkMonitorStatus_frame:
  "cache (checkMonitorStatus w d m up st) = cache st \<and>
   requests_and_restarts (checkMonitorStatus w d m up st)
     = requests_and_restarts st
       @ (if MonitorContainers m \<noteq> [] \<and> (\<exists>c \<in> set (MonitorContainers m). \<not> running up c)
          then [LogRestarting (Profile m)] else [])"
  using filter_length_all [of "running up" "MonitorContainers m"]
  by (simp add: checkMonitorStatus_def Let_def stopAndRestart_frame requests_emit emit_fields
      list_all_iff)

lemma copy_each_frame: "same_record st (snd (copy_each w m fs st))"
proof (induction fs arbitrary: st)
  case Nil
  then show ?case by (simp add: same_record_def)
next
  case (Cons f fs)
  show ?case
    unfolding copy_each.simps
  proof (rule and_then_keeps)
    show "same_record st (snd (fs_step (cpSync w (clock st) (dest_str m @ ''/'' @ f)
             (dest_str m @ ''/current/'' @ f)) (emit (LogCopying f (dest_str m @ ''/current/'' @ f)) st)))"
      by (intro fs_step_same emit_same same_record_refl) simp
  next
    fix s assume "same_record st s"
    with Cons.IH [of s] show "same_record st (snd (copy_each w m fs s))"
      by (simp add: same_record_def)
  qed
qed

lemma same_record_trans: "same_record a b \<Longrightarrow> same_record b c \<Longrightarrow> same_record a c"
  by (simp add: same_record_def)

lemma promote_steps_frame: "same_record st (snd (promote_steps w m fp st))"
  unfolding promote_steps_def Let_def
  apply (rule and_then_keeps)
   apply (intro fs_step_same emit_same same_record_refl; simp)
  apply (rule and_then_keeps)
   apply (simp add: fs_step_same emit_same)
  apply (rule and_then_keeps)
   apply (intro fs_step_same emit_same; simp)
  apply (erule same_record_trans [OF _ copy_each_frame])
  done

lemma promote_cache:
  "cache (snd (promote w d m fp isInit s)) =
     (if fst (promote_steps w m fp s) = None then (cache s)(Profile m \<mapsto> fp) else cache s)"
  using promote_steps_frame [of s w m fp]
  by (cases "promote_steps w m fp s")
     (auto simp add: promote_def and_then_def Let_def stopAndRestart_frame same_record_def
        split: option.splits)

lemma rm_deferred_cache: "cache (rm_deferred w p st) = cache st"
  by (simp add: rm_deferred_def)

lemma uncaught_cache: "cache (uncaught r) = cache (snd r)"
  by (cases r) (simp add: uncaught_def emit_fields split: option.splits)

lemma unpack_cache: "cache (unpack m body entries st) = cache st"
  by (simp add: unpack_def)

lemma fetch_cache:
  "cache (fetch w d m url fp isInit s0) =
     (case axios (get_archive w url) of
        Rejected \<Rightarrow> cache s0
      | Response status body \<Rightarrow>
          if status = 200 \<and> \<not> denied w (OpenWrite (dest_str m @ ''/temp/files.zip''))
             \<and> \<not> denied w (Unzip (dest_str m @ ''/temp/files.zip'') (dest_str m @ ''/temp''))
          then (case unzip w body of
                  None \<Rightarrow> cache s0
                | Some entries \<Rightarrow>
                    if fst (promote_steps w m fp (unpack m body entries (emit (HttpGet url) s0))) = None
                    then (cache s0)(Profile m \<mapsto> fp) else cache s0)
          else cache s0)"
  by (simp add: fetch_def Let_def stopAndRestart_frame emit_fields rm_deferred_cache uncaught_cache
      promote_cache unpack_cache split: http_result.splits option.splits)


section \<open>What a restart can write\<close>














section \<open>A build that is already under \<open>builds\<close>\<close>

lemma exists_after_mkdir: "p \<noteq> q \<Longrightarrow> existsSync (fs @ [(q, n)]) p = existsSync fs p"
  by (auto simp add: existsSync_def map_add_def split: option.splits)





section \<open>The cache is written last\<close>

lemma ensure_builds_keeps:
  assumes "\<not> existsSync (files st) (dest_str m @ ''/builds/'' @ fp)"
  shows "cache (snd (ensure_builds w m st)) = cache st \<and>
         (fst (ensure_builds w m st) = None
            \<longrightarrow> \<not> existsSync (files (snd (ensure_builds w m st))) (dest_str m @ ''/builds/'' @ fp))"
proof -
  have "dest_str m @ ''/builds/'' @ fp \<noteq> dest_str m @ ''/builds''"
    by simp
  with assms show ?thesis
    by (auto simp add: ensure_builds_def fs_step_def mkdirSync_def emit_fields exists_after_mkdir
        split: sum.splits)
qed

lemma reset_temp_cache: "cache (snd (reset_temp w m s)) = cache s"
proof -
  have "same_record s (snd (reset_temp w m s))"
    unfolding reset_temp_def Let_def
    by (rule and_then_keeps) (simp_all add: fs_step_same same_record_refl)
  then show ?thesis
    by (simp add: same_record_def)
qed

lemma downloadAndExtract_fetch_path:
  assumes "\<not> existsSync (files st) (dest_str m @ ''/builds/'' @ fp)"
  shows "(cache (snd (downloadAndExtract w d m url fp isInit st)) = cache st) \<or>
         (\<exists>st1 st3.
            ensure_builds w m st = (None, st1) \<and> reset_temp w m st1 = (None, st3) \<and>
            cache st3 = cache st \<and>
            snd (downloadAndExtract w d m url fp isInit st)
              = fetch w d m url fp isInit
                  (emit (LogInfo (''Downloading '' @ url @ '' to '' @ dest_str m @ ''/temp/files.zip''))
                     st3))"
proof (cases "ensure_builds w m st")
  case (Pair eo st1)
  note A = ensure_builds_keeps [OF assms, of w, unfolded Pair, simplified]
  show ?thesis
  proof (cases eo)
    case (Some e)
    with Pair A show ?thesis
      by (simp add: downloadAndExtract_def Let_def and_then_def)
  next
    case None
    note eb = this
    obtain eo3 st3 where R: "reset_temp w m st1 = (eo3, st3)"
      by (cases "reset_temp w m st1")
    have c3: "cache st3 = cache st"
      using reset_temp_cache [of w m st1] R A by simp
    show ?thesis
    proof (cases eo3)
      case (Some e)
      with Pair eb A R c3 show ?thesis
        by (simp add: downloadAndExtract_def Let_def and_then_def)
    next
      case None
      with Pair eb A R c3 show ?thesis
        by (simp add: downloadAndExtract_def Let_def and_then_def)
    qed
  qed
qed

text \<open>
  C2, as the code has it. When \<open>builds/<fingerprint>\<close> does not exist as the update is
  detected, the cache changes only in one way: the two preparations went through, the
  archive was answered with status 200, it unpacked, and every file-system step of the
  promotion on the unpacked tree (the move to \<open>builds/<fingerprint>\<close>, the replacement
  of \<open>current\<close>, the copies of the auxiliary files) completed without an exception;
  the entry of the profile is then the new fingerprint. So a failed download,
  extraction or copy leaves the cache as it was.
\<close>

theorem cache_updated_last:
  assumes "\<not> existsSync (files st) (dest_str m @ ''/builds/'' @ fp)"
      and "cache (snd (downloadAndExtract w d m url fp isInit st)) \<noteq> cache st"
  shows "cache (snd (downloadAndExtract w d m url fp isInit st)) = (cache st)(Profile m \<mapsto> fp) \<and>
         (\<exists>st1 st3 body entries.
            ensure_builds w m st = (None, st1) \<and> reset_temp w m st1 = (None, st3) \<and>
            get_archive w url = Response 200 body \<and> unzip w body = Some entries \<and>
            fst (promote_steps w m fp
                   (unpack m body entries
                      (emit (HttpGet url)
                         (emit (LogInfo (''Downloading '' @ url @ '' to '' @ dest_str m
                                           @ ''/temp/files.zip'')) st3)))) = None)"
proof -
  let ?log = "LogInfo (''Downloading '' @ url @ '' to '' @ dest_str m @ ''/temp/files.zip'')"
  obtain st1 st3 where p: "ensure_builds w m st = (None, st1)" "reset_temp w m st1 = (None, st3)"
    and c3: "cache st3 = cache st"
    and f: "snd (downloadAndExtract w d m url fp isInit st) = fetch w d m url fp isInit (emit ?log st3)"
    using downloadAndExtract_fetch_path [OF assms(1), of w d url isInit] assms(2) by blast
  have s: "cache (emit ?log st3) = cache st"
    using c3 by (simp add: emit_fields)
  have "cache (fetch w d m url fp isInit (emit ?log st3)) \<noteq> cache (emit ?log st3)"
    using assms(2) f s by simp
  then obtain body entries where
      "axios (get_archive w url) = Response 200 body" "unzip w body = Some entries"
      "fst (promote_steps w m fp (unpack m body entries (emit (HttpGet url) (emit ?log st3)))) = None"
      "cache (fetch w d m url fp isInit (emit ?log st3)) = (cache (emit ?log st3))(Profile m \<mapsto> fp)"
    unfolding fetch_cache [of w d m url fp isInit "emit ?log st3"]
    by (auto split: http_result.splits option.splits if_splits)
  with p f s show ?thesis
    by (auto dest: axios_Response)
qed

theorem cache_updated_last_witness:
  "cache (snd (downloadAndExtract archive_world web_db app_profile ''https://dl/main.zip'' ''abc'' False fresh_state))
     = (cache fresh_state)(''app'' \<mapsto> ''abc'') \<and>
   (\<exists>st1 st3 body entries.
      ensure_builds archive_world app_profile fresh_state = (None, st1) \<and>
      reset_temp archive_world app_profile st1 = (None, st3) \<and>
      get_archive archive_world ''https://dl/main.zip'' = Response 200 body \<and>
      unzip archive_world body = Some entries \<and>
      fst (promote_steps archive_world app_profile ''abc''
             (unpack app_profile body entries
                (emit (HttpGet ''https://dl/main.zip'')
                   (emit (LogInfo (''Downloading '' @ ''https://dl/main.zip'' @ '' to ''
                                     @ dest_str app_profile @ ''/temp/files.zip'')) st3)))) = None)"
proof -
  have a: "\<not> existsSync (files fresh_state) (dest_str app_profile @ ''/builds/'' @ ''abc'')"
    by code_simp
  have "cache (snd (downloadAndExtract archive_world web_db app_profile ''https://dl/main.zip'' ''abc'' False fresh_state)) ''app''
          = Some ''abc''"
    by code_simp
  moreover have "cache fresh_state ''app'' = None"
    by code_simp
  ultimately have b: "cache (snd (downloadAndExtract archive_world web_db app_profile ''https://dl/main.zip'' ''abc'' False fresh_state))
          \<noteq> cache fresh_state"
    by auto
  have p: "Profile app_profile = ''app''" by code_simp
  show ?thesis
    using cache_updated_last [OF a b] unfolding p .
qed

text \<open>
  C2 as stated fails on the attempt that follows a failed one. In the first attempt the
  copy of the build to \<open>current\<close> is denied: the build is under \<open>builds\<close>, the cache is
  unchanged. The second attempt, with nothing denied, finds the build, enters the
  fingerprint in the cache and stops there: \<open>current\<close> does not exist.
\<close>

theorem cache_set_without_promotion_counterexample:
  "cache (snd (downloadAndExtract copy_denied web_db app_profile ''https://dl/main.zip'' ''abc'' False
                 fresh_state)) ''app'' = None \<and>
   cache (snd (downloadAndExtract archive_world web_db app_profile ''https://dl/main.zip'' ''abc'' False
                 (snd (downloadAndExtract copy_denied web_db app_profile ''https://dl/main.zip'' ''abc''
                         False fresh_state)))) ''app'' = Some ''abc'' \<and>
   \<not> existsSync
       (files (snd (downloadAndExtract archive_world web_db app_profile ''https://dl/main.zip'' ''abc'' False
                      (snd (downloadAndExtract copy_denied web_db app_profile ''https://dl/main.zip'' ''abc''
                              False fresh_state)))))
       ''/srv/app/current''"
  by code_simp

section \<open>A profile that is up to date\<close>

lemma cache_hit_branch:
  "catch_log (and_then (syncMonitorFiles w m s2) (\<lambda>st3. (None, checkMonitorStatus w d m up st3)))
     = (case fst (syncMonitorFiles w m s2) of
          None \<Rightarrow> checkMonitorStatus w d m up (snd (syncMonitorFiles w m s2))
        | Some e \<Rightarrow> emit (LogException e) (snd (syncMonitorFiles w m s2)))
   \<and> cache (catch_log (and_then (syncMonitorFiles w m s2) (\<lambda>st3. (None, checkMonitorStatus w d m up st3))))
       = cache s2
   \<and> requests_and_restarts
       (catch_log (and_then (syncMonitorFiles w m s2) (\<lambda>st3. (None, checkMonitorStatus w d m up st3))))
       = requests_and_restarts s2
         @ (if fst (syncMonitorFiles w m s2) = None \<and> MonitorContainers m \<noteq> []
               \<and> (\<exists>c \<in> set (MonitorContainers m). \<not> running up c)
            then [LogRestarting (Profile m)] else [])"
  using syncMonitorFiles_frame [of s2 w m]
        checkMonitorStatus_frame [of w d m up "snd (syncMonitorFiles w m s2)"]
  by (cases "syncMonitorFiles w m s2")
     (auto simp add: catch_log_def and_then_def same_record_def requests_emit emit_fields
        split: option.splits)

text \<open>
  C9, as the code has it. When the fingerprint resolved for a profile (the hash of the
  branch, or the name of the first matching asset without its extension) is the one in
  the cache, the evaluation resynchronises the auxiliary files; if that resync ends
  without an exception, it then reconciles the liveness: the profile is restarted
  exactly when it declares monitored containers and one of them is not up in the
  snapshot of the cycle. If the resync throws, the exception is logged and nothing is
  restarted. In both cases the cache keeps its entries and the only request sent is the
  one that resolved the fingerprint: no archive is fetched.
\<close>

theorem up_to_date_policy:
  "(axios (get_tree w (repoUrl m)) = Response status sha \<and> cache st (Profile m) = Some sha \<longrightarrow>
      (let s2 = st\<lparr>trace := trace st @ [LogInfo (''Run repo monitor for '' @ Profile m),
                                         HttpGet (repoUrl m),
                                         LogInfo (Profile m @ '' has up-to-date version of '' @ sha)]\<rparr>;
           r = syncMonitorFiles w m s2;
           st' = runRepoMonitor w d m isInit up st
       in st' = (case fst r of
                   None \<Rightarrow> checkMonitorStatus w d m up (snd r)
                 | Some e \<Rightarrow> emit (LogException e) (snd r)) \<and>
          cache st' = cache st \<and>
          requests_and_restarts st'
            = requests_and_restarts st @ [HttpGet (repoUrl m)]
              @ (if fst r = None \<and> MonitorContainers m \<noteq> []
                    \<and> (\<exists>c \<in> set (MonitorContainers m). \<not> running up c)
                 then [LogRestarting (Profile m)] else []))) \<and>
   (get_releases w (releaseUrl m) = Response 200 data \<and>
    first_asset (release_results w m data) = Inr (name, downloadUrl) \<and>
    cache st (Profile m) = Some name \<longrightarrow>
      (let s2 = st\<lparr>trace := trace st @ [LogInfo (''Run release monitor for '' @ Profile m),
                                         HttpGet (releaseUrl m),
                                         LogInfo (Profile m @ '' has up-to-date version of '' @ name)]\<rparr>;
           r = syncMonitorFiles w m s2;
           st' = runReleaseMonitor w d m isInit up st
       in st' = (case fst r of
                   None \<Rightarrow> checkMonitorStatus w d m up (snd r)
                 | Some e \<Rightarrow> emit (LogException e) (snd r)) \<and>
          cache st' = cache st \<and>
          requests_and_restarts st'
            = requests_and_restarts st @ [HttpGet (releaseUrl m)]
              @ (if fst r = None \<and> MonitorContainers m \<noteq> []
                    \<and> (\<exists>c \<in> set (MonitorContainers m). \<not> running up c)
                 then [LogRestarting (Profile m)] else [])))"
proof (intro conjI impI)
  assume h: "axios (get_tree w (repoUrl m)) = Response status sha \<and> cache st (Profile m) = Some sha"
  let ?s2 = "st\<lparr>trace := trace st @ [LogInfo (''Run repo monitor for '' @ Profile m),
                                     HttpGet (repoUrl m),
                                     LogInfo (Profile m @ '' has up-to-date version of '' @ sha)]\<rparr>"
  have run: "runRepoMonitor w d m isInit up st =
          catch_log (and_then (syncMonitorFiles w m ?s2) (\<lambda>st3. (None, checkMonitorStatus w d m up st3)))"
    using h by (simp add: runRepoMonitor_def repoUrl_def Let_def emit_def)
  have s2: "cache ?s2 = cache st"
    "requests_and_restarts ?s2 = requests_and_restarts st @ [HttpGet (repoUrl m)]"
    by (simp_all add: requests_and_restarts_def)
  show "let s2 = ?s2; r = syncMonitorFiles w m s2; st' = runRepoMonitor w d m isInit up st
        in st' = (case fst r of
                   None \<Rightarrow> checkMonitorStatus w d m up (snd r)
                 | Some e \<Rightarrow> emit (LogException e) (snd r)) \<and>
          cache st' = cache st \<and>
          requests_and_restarts st'
            = requests_and_restarts st @ [HttpGet (repoUrl m)]
              @ (if fst r = None \<and> MonitorContainers m \<noteq> []
                    \<and> (\<exists>c \<in> set (MonitorContainers m). \<not> running up c)
                 then [LogRestarting (Profile m)] else [])"
  proof -
    note B = cache_hit_branch [of w m ?s2 d up]
    from B have b1: "catch_log (and_then (syncMonitorFiles w m ?s2)
                        (\<lambda>st3. (None, checkMonitorStatus w d m up st3)))
          = (case fst (syncMonitorFiles w m ?s2) of
               None \<Rightarrow> checkMonitorStatus w d m up (snd (syncMonitorFiles w m ?s2))
             | Some e \<Rightarrow> emit (LogException e) (snd (syncMonitorFiles w m ?s2)))"
      by (rule conjunct1)
    from B have b2: "cache (catch_log (and_then (syncMonitorFiles w m ?s2)
                        (\<lambda>st3. (None, checkMonitorStatus w d m up st3)))) = cache st"
      unfolding s2 by blast
    from B have b3: "requests_and_restarts (catch_log (and_then (syncMonitorFiles w m ?s2)
                        (\<lambda>st3. (None, checkMonitorStatus w d m up st3))))
          = requests_and_restarts ?s2
            @ (if fst (syncMonitorFiles w m ?s2) = None \<and> MonitorContainers m \<noteq> []
                  \<and> (\<exists>c \<in> set (MonitorContainers m). \<not> running up c)
               then [LogRestarting (Profile m)] else [])"
      by blast
    show ?thesis
      unfolding Let_def run
      by (intro conjI) (rule b1, rule b2, simp only: b3 s2 append_assoc)
  qed
next
  assume h: "get_releases w (releaseUrl m) = Response 200 data \<and>
    first_asset (release_results w m data) = Inr (name, downloadUrl) \<and>
    cache st (Profile m) = Some name"
  let ?s2 = "st\<lparr>trace := trace st @ [LogInfo (''Run release monitor for '' @ Profile m),
                                     HttpGet (releaseUrl m),
                                     LogInfo (Profile m @ '' has up-to-date version of '' @ name)]\<rparr>"
  have run: "runReleaseMonitor w d m isInit up st =
          catch_log (and_then (syncMonitorFiles w m ?s2) (\<lambda>st3. (None, checkMonitorStatus w d m up st3)))"
    using h by (simp add: runReleaseMonitor_def releaseUrl_def Let_def emit_def truthy_array_def axios_200)
  have s2: "cache ?s2 = cache st"
    "requests_and_restarts ?s2 = requests_and_restarts st @ [HttpGet (releaseUrl m)]"
    by (simp_all add: requests_and_restarts_def)
  show "let s2 = ?s2; r = syncMonitorFiles w m s2; st' = runReleaseMonitor w d m isInit up st
        in st' = (case fst r of
                   None \<Rightarrow> checkMonitorStatus w d m up (snd r)
                 | Some e \<Rightarrow> emit (LogException e) (snd r)) \<and>
          cache st' = cache st \<and>
          requests_and_restarts st'
            = requests_and_restarts st @ [HttpGet (releaseUrl m)]
              @ (if fst r = None \<and> MonitorContainers m \<noteq> []
                    \<and> (\<exists>c \<in> set (MonitorContainers m). \<not> running up c)
                 then [LogRestarting (Profile m)] else [])"
  proof -
    note B = cache_hit_branch [of w m ?s2 d up]
    from B have b1: "catch_log (and_then (syncMonitorFiles w m ?s2)
                        (\<lambda>st3. (None, checkMonitorStatus w d m up st3)))
          = (case fst (syncMonitorFiles w m ?s2) of
               None \<Rightarrow> checkMonitorStatus w d m up (snd (syncMonitorFiles w m ?s2))
             | Some e \<Rightarrow> emit (LogException e) (snd (syncMonitorFiles w m ?s2)))"
      by (rule conjunct1)
    from B have b2: "cache (catch_log (and_then (syncMonitorFiles w m ?s2)
                        (\<lambda>st3. (None, checkMonitorStatus w d m up st3)))) = cache st"
      unfolding s2 by blast
    from B have b3: "requests_and_restarts (catch_log (and_then (syncMonitorFiles w m ?s2)
                        (\<lambda>st3. (None, checkMonitorStatus w d m up st3))))
          = requests_and_restarts ?s2
            @ (if fst (syncMonitorFiles w m ?s2) = None \<and> MonitorContainers m \<noteq> []
                  \<and> (\<exists>c \<in> set (MonitorContainers m). \<not> running up c)
               then [LogRestarting (Profile m)] else [])"
      by blast
    show ?thesis
      unfolding Let_def run
      by (intro conjI) (rule b1, rule b2, simp only: b3 s2 append_assoc)
  qed
qed

theorem up_to_date_policy_witness:
  "requests_and_restarts (runRepoMonitor branch_world web_db app_profile False Map.empty cached_synced_state)
     = [HttpGet ''https://api.github.com/repos/acme/app/git/trees/main'', LogRestarting ''app''] \<and>
   requests_and_restarts
       (runReleaseMonitor release_world web_db app_release False [''app'' \<mapsto> True] cached_release_state)
     = [HttpGet ''https://api.github.com/repos/acme/app/releases'']"
proof -
  let ?s2 = "cached_synced_state\<lparr>trace := trace cached_synced_state @
               [LogInfo (''Run repo monitor for '' @ Profile app_profile),
                HttpGet (repoUrl app_profile),
                LogInfo (Profile app_profile @ '' has up-to-date version of '' @ ''abc'')]\<rparr>"
  have h1: "axios (get_tree branch_world (repoUrl app_profile)) = Response 200 ''abc''
            \<and> cache cached_synced_state (Profile app_profile) = Some ''abc''"
    by code_simp
  note T1 = up_to_date_policy [where w = branch_world and m = app_profile and status = 200
      and sha = "''abc''" and st = cached_synced_state and d = web_db and isInit = False
      and up = Map.empty, THEN conjunct1, rule_format, OF h1, unfolded Let_def]
  from T1 have r1: "requests_and_restarts
        (runRepoMonitor branch_world web_db app_profile False Map.empty cached_synced_state)
      = requests_and_restarts cached_synced_state @ [HttpGet (repoUrl app_profile)]
        @ (if fst (syncMonitorFiles branch_world app_profile ?s2) = None
              \<and> MonitorContainers app_profile \<noteq> []
              \<and> (\<exists>c \<in> set (MonitorContainers app_profile). \<not> running Map.empty c)
           then [LogRestarting (Profile app_profile)] else [])"
    by blast
  have e1: "fst (syncMonitorFiles branch_world app_profile ?s2) = None"
    "MonitorContainers app_profile = [''app'']" "\<not> running Map.empty ''app''"
    "requests_and_restarts cached_synced_state = []"
    "repoUrl app_profile = ''https://api.github.com/repos/acme/app/git/trees/main''"
    "Profile app_profile = ''app''"
    by code_simp+
  have p1: "requests_and_restarts
        (runRepoMonitor branch_world web_db app_profile False Map.empty cached_synced_state)
      = [HttpGet ''https://api.github.com/repos/acme/app/git/trees/main'', LogRestarting ''app'']"
    unfolding r1 using e1 by simp
  let ?s3 = "cached_release_state\<lparr>trace := trace cached_release_state @
               [LogInfo (''Run release monitor for '' @ Profile app_release),
                HttpGet (releaseUrl app_release),
                LogInfo (Profile app_release @ '' has up-to-date version of '' @ ''b'')]\<rparr>"
  have h2: "get_releases release_world (releaseUrl app_release) = Response 200 example_feed
            \<and> first_asset (release_results release_world app_release example_feed)
                = Inr (''b'', ''https://dl/b.zip'')
            \<and> cache cached_release_state (Profile app_release) = Some ''b''"
    by code_simp
  note T2 = up_to_date_policy [where w = release_world and m = app_release and data = example_feed
      and name = "''b''" and downloadUrl = "''https://dl/b.zip''" and st = cached_release_state
      and d = web_db and isInit = False and up = "[''app'' \<mapsto> True]",
      THEN conjunct2, rule_format, OF h2, unfolded Let_def]
  from T2 have r2: "requests_and_restarts
        (runReleaseMonitor release_world web_db app_release False [''app'' \<mapsto> True] cached_release_state)
      = requests_and_restarts cached_release_state @ [HttpGet (releaseUrl app_release)]
        @ (if fst (syncMonitorFiles release_world app_release ?s3) = None
              \<and> MonitorContainers app_release \<noteq> []
              \<and> (\<exists>c \<in> set (MonitorContainers app_release). \<not> running [''app'' \<mapsto> True] c)
           then [LogRestarting (Profile app_release)] else [])"
    by blast
  have e2: "MonitorContainers app_release = [''app'']" "running [''app'' \<mapsto> True] ''app''"
    "requests_and_restarts cached_release_state = []"
    "releaseUrl app_release = ''https://api.github.com/repos/acme/app/releases''"
    by code_simp+
  have p2: "requests_and_restarts
        (runReleaseMonitor release_world web_db app_release False [''app'' \<mapsto> True] cached_release_state)
      = [HttpGet ''https://api.github.com/repos/acme/app/releases'']"
    unfolding r2 using e2 by simp
  show ?thesis using p1 p2 by blast
qed

text \<open>
  C9 as stated fails when the resync throws: the fingerprint is the cached one, the
  monitored container \<open>app\<close> is not up in the snapshot, the active copy of the
  auxiliary file is missing, and no restart is begun.
\<close>

theorem up_to_date_counterexample:
  "axios (get_tree branch_world (repoUrl app_profile)) = Response 200 ''abc'' \<and>
   cache cached_state (Profile app_profile) = Some ''abc'' \<and>
   MonitorContainers app_profile = [''app''] \<and>
   \<not> running Map.empty ''app'' \<and>
   requests_and_restarts (runRepoMonitor branch_world web_db app_profile False Map.empty cached_state)
     = [HttpGet ''https://api.github.com/repos/acme/app/git/trees/main'']"
  by code_simp


end
